theory Spec2Isabelle
  imports Complex_Main
begin

section \<open>Rigid-body offset reprojection: a shallow embedding\<close>

text \<open>
  The Python sources compute with IEEE 754 binary64 numbers: Python floats, and numpy
  arrays of \<open>float64\<close>.  The embedding computes with the same numbers.  A Python list of
  floats and a one-dimensional numpy array are both a list of doubles; a two-dimensional
  array is a list of rows.  Every exception the code can raise on lists of floats is a
  value \<open>Inl e\<close> of the result.

  Lists whose components are Python ints are outside the model: numpy would turn them
  into \<open>int64\<close> arrays.  The motion-capture feed and \<open>float\<close> on a catalog cell deliver floats.
\<close>

subsection \<open>Binary64 arithmetic\<close>

text \<open>
  \<open>Finite m e\<close> is the number \<open>m * 2\<^sup>e\<close>.  The results of the operations below are in
  canonical form: \<open>m\<close> odd, or \<open>m = 0\<close> and \<open>e = 0\<close>; so two results are the same double
  exactly when they are the same value.  The two zeros of binary64 are one value here:
  the program compares with \<open>==\<close>, under which they are equal, and never divides by a
  zero.  \<open>NaN\<close> is one value; Python's \<open>==\<close> is false on it where HOL's \<open>=\<close> is true.
\<close>

datatype double = Finite int int | PInf | NInf | NaN

text \<open>The number of binary digits of a positive integer.\<close>

function bitlen :: "int \<Rightarrow> int" where
  "bitlen n = (if n \<le> 0 then 0 else 1 + bitlen (n div 2))"
  by pat_completeness auto
termination by (relation "measure nat") auto

declare bitlen.simps [simp del]

text \<open>Canonical form of a magnitude \<open>m * 2\<^sup>e\<close>: trailing zero bits move into the exponent.\<close>

function strip :: "int \<Rightarrow> int \<Rightarrow> int \<times> int" where
  "strip m e = (if m \<le> 0 then (0, 0) else if even m then strip (m div 2) (e + 1) else (m, e))"
  by pat_completeness auto
termination by (relation "measure (\<lambda>(m, e). nat m)") auto

declare strip.simps [simp del]

definition inf_of_sign :: "bool \<Rightarrow> double" where
  "inf_of_sign neg = (if neg then NInf else PInf)"

definition mk :: "bool \<Rightarrow> int \<Rightarrow> int \<Rightarrow> double" where
  "mk neg a e = (case strip a e of (m, e') \<Rightarrow> Finite (if neg then - m else m) e')"

text \<open>
  Rounding to nearest, ties to even, of the exact magnitude \<open>a * 2\<^sup>e\<close> with the given sign:
  53 bits of precision, least exponent \<open>-1074\<close> (gradual underflow), and infinity once the
  rounded value reaches \<open>2\<^sup>1\<^sup>0\<^sup>2\<^sup>4\<close>.
\<close>

definition round_mag :: "bool \<Rightarrow> int \<Rightarrow> int \<Rightarrow> double" where
  "round_mag neg a e =
     (if a \<le> 0 then Finite 0 0
      else
        let E = bitlen a + e - 1;
            q = max (E - 52) (- 1074)
        in if q \<le> e then (if 1024 \<le> E then inf_of_sign neg else mk neg a e)
           else
             let s = nat (q - e);
                 t = a div 2 ^ s;
                 r = a mod 2 ^ s;
                 h = 2 ^ (s - 1);
                 t' = (if h < r \<or> (r = h \<and> odd t) then t + 1 else t)
             in if 1024 < bitlen t' + q then inf_of_sign neg else mk neg t' q)"

definition round_dyadic :: "int \<Rightarrow> int \<Rightarrow> double" where
  "round_dyadic m e = round_mag (m < 0) \<bar>m\<bar> e"

fun fneg :: "double \<Rightarrow> double" where
  "fneg (Finite m e) = Finite (- m) e"
| "fneg PInf = NInf"
| "fneg NInf = PInf"
| "fneg NaN = NaN"

fun fmul :: "double \<Rightarrow> double \<Rightarrow> double" where
  "fmul (Finite m1 e1) (Finite m2 e2) = round_dyadic (m1 * m2) (e1 + e2)"
| "fmul NaN _ = NaN"
| "fmul _ NaN = NaN"
| "fmul (Finite m e) PInf = (if m = 0 then NaN else inf_of_sign (m < 0))"
| "fmul (Finite m e) NInf = (if m = 0 then NaN else inf_of_sign (0 < m))"
| "fmul PInf (Finite m e) = (if m = 0 then NaN else inf_of_sign (m < 0))"
| "fmul NInf (Finite m e) = (if m = 0 then NaN else inf_of_sign (0 < m))"
| "fmul PInf PInf = PInf"
| "fmul NInf NInf = PInf"
| "fmul PInf NInf = NInf"
| "fmul NInf PInf = NInf"

fun fadd :: "double \<Rightarrow> double \<Rightarrow> double" where
  "fadd (Finite m1 e1) (Finite m2 e2) =
     (let e = min e1 e2
      in round_dyadic (m1 * 2 ^ nat (e1 - e) + m2 * 2 ^ nat (e2 - e)) e)"
| "fadd NaN _ = NaN"
| "fadd _ NaN = NaN"
| "fadd PInf NInf = NaN"
| "fadd NInf PInf = NaN"
| "fadd PInf _ = PInf"
| "fadd _ PInf = PInf"
| "fadd NInf _ = NInf"
| "fadd _ NInf = NInf"

text \<open>
  Division rounds the exact quotient: the integer quotient is taken with at least 55
  bits and a last bit that records a nonzero remainder, which rounds as the exact
  quotient does.  A finite number divided by zero is numpy's infinity with the sign of
  the dividend (the divisor is the zero of positive sign).
\<close>

fun fdiv :: "double \<Rightarrow> double \<Rightarrow> double" where
  "fdiv (Finite m1 e1) (Finite m2 e2) =
     (if m2 = 0 then (if m1 = 0 then NaN else inf_of_sign (m1 < 0))
      else
        let a = \<bar>m1\<bar>; b = \<bar>m2\<bar>;
            k = nat (bitlen b + 55 - bitlen a);
            n = a * 2 ^ k;
            qn = n div b;
            sticky = (if n mod b = 0 then 0 else 1)
        in round_mag ((m1 < 0) \<noteq> (m2 < 0)) (2 * qn + sticky) (e1 - e2 - int k - 1))"
| "fdiv NaN _ = NaN"
| "fdiv _ NaN = NaN"
| "fdiv (Finite m e) PInf = Finite 0 0"
| "fdiv (Finite m e) NInf = Finite 0 0"
| "fdiv PInf (Finite m e) = inf_of_sign (m < 0)"
| "fdiv NInf (Finite m e) = inf_of_sign (\<not> m < 0)"
| "fdiv PInf PInf = NaN"
| "fdiv PInf NInf = NaN"
| "fdiv NInf PInf = NaN"
| "fdiv NInf NInf = NaN"

text \<open>The integer square root, and \<open>np.sqrt\<close>: the exact root rounded, by the same device.\<close>

function isqrt :: "int \<Rightarrow> int" where
  "isqrt n = (if n < 2 then max n 0
              else let r = 2 * isqrt (n div 4) in if (r + 1) * (r + 1) \<le> n then r + 1 else r)"
  by pat_completeness auto
termination by (relation "measure nat") auto

declare isqrt.simps [simp del]

fun np_sqrt :: "double \<Rightarrow> double" where
  "np_sqrt (Finite m e) =
     (if m < 0 then NaN
      else if m = 0 then Finite 0 0
      else
        let k0 = nat (111 - bitlen m);
            k = (if even (e - int k0) then k0 else k0 + 1);
            n = m * 2 ^ k;
            s = isqrt n;
            sticky = (if s * s = n then 0 else 1)
        in round_mag False (2 * s + sticky) ((e - int k) div 2 - 1))"
| "np_sqrt PInf = PInf"
| "np_sqrt NInf = NaN"
| "np_sqrt NaN = NaN"

text \<open>
  The operators of the source, on doubles.  These are the rounded operations above, not
  the operations of a field: addition is not associative, and there are no numerals.
\<close>

instantiation double :: "{zero, one, plus, minus, uminus, times, inverse}"
begin

definition zero_double :: double where "0 = Finite 0 0"
definition one_double :: double where "1 = Finite 1 0"
definition plus_double :: "double \<Rightarrow> double \<Rightarrow> double" where "a + b = fadd a b"
definition minus_double :: "double \<Rightarrow> double \<Rightarrow> double" where "a - b = fadd a (fneg b)"
definition uminus_double :: "double \<Rightarrow> double" where "- a = fneg a"
definition times_double :: "double \<Rightarrow> double \<Rightarrow> double" where "a * b = fmul a b"
definition divide_double :: "double \<Rightarrow> double \<Rightarrow> double" where "a div b = fdiv a b"
definition inverse_double :: "double \<Rightarrow> double" where "inverse a = fdiv (Finite 1 0) a"

instance ..

end

text \<open>
  The int constants \<open>2\<close> and \<open>1000\<close> of the source, as the doubles that Python converts
  them to when the other operand is a float: \<open>2 = 1 * 2\<^sup>1\<close> and \<open>1000 = 125 * 2\<^sup>3\<close>.
\<close>

definition two :: double where
  "two = Finite 1 1"

definition thousand :: double where
  "thousand = Finite 125 3"

type_synonym vec = "double list"
type_synonym mat = "double list list"

datatype py_error = ValueError | IndexError | KeyError | TypeError | FileNotFoundError | OSError

subsection \<open>numpy on one-dimensional arrays\<close>

text \<open>
  An elementwise binary operation on shapes \<open>(n,)\<close> and \<open>(m,)\<close>: equal lengths combine
  pointwise, a length-one operand is broadcast, anything else raises \<open>ValueError\<close>.
\<close>

definition np_binop :: "(double \<Rightarrow> double \<Rightarrow> double) \<Rightarrow> vec \<Rightarrow> vec \<Rightarrow> py_error + vec" where
  "np_binop f a b =
     (if length a = length b then Inr (map2 f a b)
      else if length a = 1 then Inr (map (f (hd a)) b)
      else if length b = 1 then Inr (map (\<lambda>x. f x (hd b)) a)
      else Inl ValueError)"

definition np_sub :: "vec \<Rightarrow> vec \<Rightarrow> py_error + vec" where
  "np_sub = np_binop (-)"

definition np_add :: "vec \<Rightarrow> vec \<Rightarrow> py_error + vec" where
  "np_add = np_binop (+)"

text \<open>\<open>np.sum\<close> of a short one-dimensional array: the components are added from the left.\<close>

definition np_sum :: "vec \<Rightarrow> double" where
  "np_sum v = foldl (+) 0 v"

text \<open>\<open>np.eye(3)\<close>.\<close>

definition eye3 :: mat where
  "eye3 = [[1, 0, 0], [0, 1, 0], [0, 0, 1]]"

text \<open>\<open>M.T\<close> of a 3x3 array, the only shape the program transposes.\<close>

fun transpose3 :: "mat \<Rightarrow> mat" where
  "transpose3 [[a, b, c], [d, e, f], [g, h, i]] = [[a, d, g], [b, e, h], [c, f, i]]"
| "transpose3 M = transpose M"

text \<open>
  \<open>M @ v\<close> for a two-dimensional \<open>M\<close> and a one-dimensional \<open>v\<close>: every row of \<open>M\<close> must be
  as long as \<open>v\<close>, else \<open>ValueError\<close>.  The source does not fix the order in which the
  linear-algebra library adds the products of a row; here they are added from the left,
  each product and each sum rounded.  Where a row has at most one nonzero product, as in
  every evaluation below, the order does not matter.
\<close>

definition dot :: "vec \<Rightarrow> vec \<Rightarrow> double" where
  "dot r v = np_sum (map2 (*) r v)"

definition matvec :: "mat \<Rightarrow> vec \<Rightarrow> py_error + vec" where
  "matvec M v =
     (if list_all (\<lambda>r. length r = length v) M then Inr (map (\<lambda>r. dot r v) M)
      else Inl ValueError)"

subsection \<open>\<open>position_calculations.py\<close>: class \<open>PositionCalculator\<close>\<close>

text \<open>
  \<open>quaternion_to_rotation_matrix\<close>: the unpacking \<open>x, y, z, w = q\<close> raises \<open>ValueError\<close>
  unless \<open>q\<close> has exactly four components; a zero norm returns \<open>np.eye(3)\<close>.
\<close>

fun quaternion_to_rotation_matrix :: "vec \<Rightarrow> py_error + mat" where
  "quaternion_to_rotation_matrix [x0, y0, z0, w0] =
     (let n = np_sqrt (x0 * x0 + y0 * y0 + z0 * z0 + w0 * w0) in
      if n = 0 then Inr eye3
      else
        let x = x0 / n; y = y0 / n; z = z0 / n; w = w0 / n in
        Inr [[1 - two * (y * y + z * z), two * (x * y - w * z), two * (x * z + w * y)],
             [two * (x * y + w * z), 1 - two * (x * x + z * z), two * (y * z - w * x)],
             [two * (x * z - w * y), two * (y * z + w * x), 1 - two * (x * x + y * y)]])"
| "quaternion_to_rotation_matrix _ = Inl ValueError"

text \<open>
  \<open>calculate_updated_stylus_position\<close>, statement by statement: both rotation matrices,
  the offset in world axes, its expression in the tracker's axes at the reference, its
  expression in world axes at the new orientation, and the new position.
\<close>

definition calculate_updated_stylus_position ::
    "vec \<Rightarrow> vec \<Rightarrow> vec \<Rightarrow> vec \<Rightarrow> vec \<Rightarrow> py_error + vec" where
  "calculate_updated_stylus_position reference_position reference_rotation
       reference_stylus_pos new_position new_rotation =
     (case quaternion_to_rotation_matrix reference_rotation of
        Inl e \<Rightarrow> Inl e
      | Inr R_ref \<Rightarrow>
     (case quaternion_to_rotation_matrix new_rotation of
        Inl e \<Rightarrow> Inl e
      | Inr R_new \<Rightarrow>
     (case np_sub reference_stylus_pos reference_position of
        Inl e \<Rightarrow> Inl e
      | Inr offset_in_ref_frame \<Rightarrow>
     (case matvec (transpose3 R_ref) offset_in_ref_frame of
        Inl e \<Rightarrow> Inl e
      | Inr offset_local \<Rightarrow>
     (case matvec R_new offset_local of
        Inl e \<Rightarrow> Inl e
      | Inr offset_in_new_frame \<Rightarrow>
          np_add new_position offset_in_new_frame)))))"



definition convert_to_millimeters :: "vec \<Rightarrow> vec" where
  "convert_to_millimeters position_meters =
     map (\<lambda>pos. pos * thousand) position_meters"

definition convert_to_meters :: "vec \<Rightarrow> vec" where
  "convert_to_meters position_millimeters =
     map (\<lambda>pos. pos / thousand) position_millimeters"

subsection \<open>The reference catalog: a CSV file read through \<open>csv.DictReader\<close>\<close>

text \<open>
  What \<open>open(csv_filename, 'r')\<close> finds: no file (\<open>FileNotFoundError\<close>), a file that cannot
  be read (another \<open>OSError\<close>), or the rows that \<open>csv.DictReader\<close> yields.  A row is a
  dictionary from column name to cell.  A column that the header lacks is an absent key,
  so reading it raises \<open>KeyError\<close>.  A cell is the text of the field, or Python's \<open>None\<close>
  where the row is shorter than the header (\<open>restval\<close>).

  Python's \<open>float\<close> on the text of a cell is a parameter \<open>pf\<close> of every function that
  parses cells: \<open>pf s = None\<close> stands for the \<open>ValueError\<close> that \<open>float(s)\<close> raises.  On
  a cell that is \<open>None\<close>, \<open>float\<close> raises \<open>TypeError\<close>.
\<close>

type_synonym cell = "string option"

type_synonym row = "string \<rightharpoonup> cell"

datatype csv_file = Missing | Unreadable | Rows "row list"

type_synonym float_parser = "string \<Rightarrow> double option"

definition open_csv :: "csv_file \<Rightarrow> py_error + row list" where
  "open_csv file =
     (case file of
        Missing \<Rightarrow> Inl FileNotFoundError
      | Unreadable \<Rightarrow> Inl OSError
      | Rows rows \<Rightarrow> Inr rows)"

text \<open>\<open>float(row[key])\<close>, and a list display of such expressions, evaluated left to right.\<close>

definition read_float :: "float_parser \<Rightarrow> row \<Rightarrow> string \<Rightarrow> py_error + double" where
  "read_float pf row key =
     (case row key of
        None \<Rightarrow> Inl KeyError
      | Some None \<Rightarrow> Inl TypeError
      | Some (Some s) \<Rightarrow> (case pf s of None \<Rightarrow> Inl ValueError | Some v \<Rightarrow> Inr v))"

fun read_floats :: "float_parser \<Rightarrow> row \<Rightarrow> string list \<Rightarrow> py_error + vec" where
  "read_floats pf row [] = Inr []"
| "read_floats pf row (key # keys) =
     (case read_float pf row key of
        Inl e \<Rightarrow> Inl e
      | Inr v \<Rightarrow> (case read_floats pf row keys of Inl e \<Rightarrow> Inl e | Inr vs \<Rightarrow> Inr (v # vs)))"

definition femur_pos_columns :: "string list" where
  "femur_pos_columns = [''Femur_Pos_X_mm'', ''Femur_Pos_Y_mm'', ''Femur_Pos_Z_mm'']"

definition femur_rot_columns :: "string list" where
  "femur_rot_columns = [''Femur_Rot_W'', ''Femur_Rot_X'', ''Femur_Rot_Y'', ''Femur_Rot_Z'']"

definition stylus_pos_columns :: "string list" where
  "stylus_pos_columns = [''Stylus_Pos_X_mm'', ''Stylus_Pos_Y_mm'', ''Stylus_Pos_Z_mm'']"

subsection \<open>\<open>realtime_visualization.py\<close>: \<open>RealtimeVisualizer.load_reference_data\<close>\<close>

record reference_entry =
  femur_pos :: vec
  femur_rot :: vec
  stylus_pos :: vec

text \<open>
  The body of \<open>for row in reader\<close>, with the dictionary built so far.  The key is the
  \<open>Point_Number\<close> cell as it is, text or \<open>None\<close>.
\<close>

fun load_reference_rows ::
    "float_parser \<Rightarrow> row list \<Rightarrow> (cell \<rightharpoonup> reference_entry)
       \<Rightarrow> py_error + (cell \<rightharpoonup> reference_entry)" where
  "load_reference_rows pf [] reference_data = Inr reference_data"
| "load_reference_rows pf (row # rows) reference_data =
     (case row ''Point_Number'' of
        None \<Rightarrow> Inl KeyError
      | Some point_number \<Rightarrow>
     (case read_floats pf row femur_pos_columns of
        Inl e \<Rightarrow> Inl e
      | Inr fpos \<Rightarrow>
     (case read_floats pf row femur_rot_columns of
        Inl e \<Rightarrow> Inl e
      | Inr frot \<Rightarrow>
     (case read_floats pf row stylus_pos_columns of
        Inl e \<Rightarrow> Inl e
      | Inr spos \<Rightarrow>
          load_reference_rows pf rows
            (reference_data(point_number \<mapsto>
               \<lparr> femur_pos = fpos, femur_rot = frot, stylus_pos = spos \<rparr>))))))"

text \<open>
  The \<open>try\<close> block and its two handlers: \<open>except FileNotFoundError\<close> and
  \<open>except Exception\<close> both leave \<open>self.reference_data = {}\<close>.  The result is the value
  of \<open>self.reference_data\<close> when the method returns; \<open>Inl\<close> would be an exception
  leaving the method.
\<close>

definition load_reference_data ::
    "float_parser \<Rightarrow> csv_file \<Rightarrow> py_error + (cell \<rightharpoonup> reference_entry)" where
  "load_reference_data pf file =
     (case (case open_csv file of
              Inl e \<Rightarrow> Inl e
            | Inr rows \<Rightarrow> load_reference_rows pf rows Map.empty) of
        Inl FileNotFoundError \<Rightarrow> Inr Map.empty
      | Inl e \<Rightarrow> Inr Map.empty
      | Inr reference_data \<Rightarrow> Inr reference_data)"

subsection \<open>\<open>visualize_points.py\<close>: \<open>load_csv_data\<close> and \<open>calculate_point_position\<close>\<close>

record point_entry =
  femur :: vec
  stylus :: vec

fun load_csv_rows ::
    "float_parser \<Rightarrow> row list \<Rightarrow> (cell \<rightharpoonup> point_entry)
       \<Rightarrow> py_error + (cell \<rightharpoonup> point_entry)" where
  "load_csv_rows pf [] points = Inr points"
| "load_csv_rows pf (row # rows) points =
     (case row ''Point_Number'' of
        None \<Rightarrow> Inl KeyError
      | Some point_number \<Rightarrow>
     (case read_floats pf row femur_pos_columns of
        Inl e \<Rightarrow> Inl e
      | Inr fpos \<Rightarrow>
     (case read_floats pf row stylus_pos_columns of
        Inl e \<Rightarrow> Inl e
      | Inr spos \<Rightarrow>
          load_csv_rows pf rows (points(point_number \<mapsto> \<lparr> femur = fpos, stylus = spos \<rparr>)))))"

text \<open>\<open>load_csv_data\<close> has no \<open>try\<close>: whatever \<open>open\<close> or the loop raises leaves it.\<close>

definition load_csv_data ::
    "float_parser \<Rightarrow> csv_file \<Rightarrow> py_error + (cell \<rightharpoonup> point_entry)" where
  "load_csv_data pf file =
     (case open_csv file of
        Inl e \<Rightarrow> Inl e
      | Inr rows \<Rightarrow> load_csv_rows pf rows Map.empty)"

text \<open>
  The message of the miss branch, \<open>', '.join(sorted(points.keys()))\<close>.  With a key that is
  \<open>None\<close>, \<open>sorted\<close> raises \<open>TypeError\<close> when it compares it with a string, and \<open>join\<close> raises
  \<open>TypeError\<close> when it is the only key.  Otherwise the call returns the text, which is only
  printed; its content is not modelled.
\<close>

definition available_points :: "(cell \<rightharpoonup> 'a) \<Rightarrow> py_error + unit" where
  "available_points points = (case points None of Some entry \<Rightarrow> Inl TypeError | None \<Rightarrow> Inr ())"

text \<open>
  The second pass over the file: the rotation cells of the first row whose
  \<open>Point_Number\<close> is the label, in the order \<open>Femur_Rot_W\<close>, \<open>Femur_Rot_X\<close>,
  \<open>Femur_Rot_Y\<close>, \<open>Femur_Rot_Z\<close>; \<open>None\<close> when no row matches.
\<close>

fun find_femur_rotation ::
    "float_parser \<Rightarrow> string \<Rightarrow> row list \<Rightarrow> py_error + vec option" where
  "find_femur_rotation pf point_label [] = Inr None"
| "find_femur_rotation pf point_label (row # rows) =
     (case row ''Point_Number'' of
        None \<Rightarrow> Inl KeyError
      | Some p \<Rightarrow>
          if p = Some point_label then
            (case read_floats pf row femur_rot_columns of
               Inl e \<Rightarrow> Inl e
             | Inr femur_rotation \<Rightarrow> Inr (Some femur_rotation))
          else find_femur_rotation pf point_label rows)"

text \<open>The dictionary that \<open>calculate_point_position\<close> returns; \<open>None\<close> is Python's \<open>None\<close>.\<close>

record point_result =
  res_point_label :: string
  res_calculated_position_mm :: vec
  res_current_femur_pos_mm :: vec
  res_reference_femur_pos_mm :: vec
  res_reference_stylus_pos_mm :: vec
  res_reference_femur_rotation :: vec

definition calculate_point_position ::
    "float_parser \<Rightarrow> string \<Rightarrow> vec \<Rightarrow> vec \<Rightarrow> csv_file \<Rightarrow> py_error + point_result option" where
  "calculate_point_position pf point_label current_femur_pos_meters current_femur_rot_quat file =
     (case load_csv_data pf file of
        Inl e \<Rightarrow> Inl e
      | Inr points \<Rightarrow>
     (case points (Some point_label) of
        None \<Rightarrow> (case available_points points of Inl e \<Rightarrow> Inl e | Inr s \<Rightarrow> Inr None)
      | Some entry \<Rightarrow>
     (let ref_femur_pos_mm = femur entry;
          ref_stylus_pos_mm = stylus entry in
      case open_csv file of
        Inl e \<Rightarrow> Inl e
      | Inr rows \<Rightarrow>
     (case find_femur_rotation pf point_label rows of
        Inl e \<Rightarrow> Inl e
      | Inr None \<Rightarrow> Inr None
      | Inr (Some femur_rotation) \<Rightarrow>
     (let ref_femur_pos_meters = convert_to_meters ref_femur_pos_mm;
          ref_stylus_pos_meters = convert_to_meters ref_stylus_pos_mm;
          current_femur_pos_mm = convert_to_millimeters current_femur_pos_meters in
      case calculate_updated_stylus_position ref_femur_pos_mm femur_rotation
             ref_stylus_pos_mm current_femur_pos_mm current_femur_rot_quat of
        Inl e \<Rightarrow> Inl e
      | Inr calculated_position_mm \<Rightarrow>
          Inr (Some \<lparr> res_point_label = point_label,
                      res_calculated_position_mm = calculated_position_mm,
                      res_current_femur_pos_mm = current_femur_pos_mm,
                      res_reference_femur_pos_mm = ref_femur_pos_mm,
                      res_reference_stylus_pos_mm = ref_stylus_pos_mm,
                      res_reference_femur_rotation = femur_rotation \<rparr>))))))"

subsection \<open>\<open>rigid_body_tracker.py\<close>: \<open>RigidBodyTracker.calculate_mapped_point\<close>\<close>

text \<open>
  The fields of the tracker object that the method reads.  A field still \<open>None\<close> is
  \<open>None\<close> here; \<open>on_rigid_body_received\<close> sets position and rotation together.
\<close>

record tracker =
  femur_data_received :: bool
  femur_position :: "vec option"
  femur_rotation :: "vec option"

record mapped_result =
  map_point_label :: string
  map_calculated_position_mm :: vec
  map_transformation_matrix :: mat
  map_current_femur_pos_mm :: vec
  map_reference_femur_pos_mm :: vec
  map_reference_stylus_pos_mm :: vec
  map_reference_femur_rotation :: vec

text \<open>
  The method, in the order of its statements: the guard on live data; the first pass over
  the file inside \<open>try\<close>, both handlers returning \<open>None\<close>; the membership test, whose miss
  branch builds the message outside any \<open>try\<close>; the second
  pass, outside any \<open>try\<close>; the reprojection; the 4x4 matrix \<open>[R | t; 0 0 0 1]\<close>; the
  report, which reads three components of the current position and raises \<open>IndexError\<close>
  on a shorter list.  A rotation field still \<open>None\<close> becomes a zero-dimensional array whose
  unpacking raises \<open>TypeError\<close>.
\<close>

definition calculate_mapped_point ::
    "float_parser \<Rightarrow> tracker \<Rightarrow> string \<Rightarrow> csv_file \<Rightarrow> py_error + mapped_result option" where
  "calculate_mapped_point pf self point_label file =
     (if \<not> femur_data_received self \<or> femur_position self = None then Inr None
      else
     (case (case open_csv file of
              Inl e \<Rightarrow> Inl e
            | Inr rows \<Rightarrow> load_csv_rows pf rows Map.empty) of
        Inl FileNotFoundError \<Rightarrow> Inr None
      | Inl e \<Rightarrow> Inr None
      | Inr points \<Rightarrow>
     (case points (Some point_label) of
        None \<Rightarrow> (case available_points points of Inl e \<Rightarrow> Inl e | Inr s \<Rightarrow> Inr None)
      | Some entry \<Rightarrow>
     (let ref_femur_pos_mm = femur entry;
          ref_stylus_pos_mm = stylus entry in
      case open_csv file of
        Inl e \<Rightarrow> Inl e
      | Inr rows \<Rightarrow>
     (case find_femur_rotation pf point_label rows of
        Inl e \<Rightarrow> Inl e
      | Inr None \<Rightarrow> Inr None
      | Inr (Some ref_rotation) \<Rightarrow>
     (let current_femur_pos_mm = convert_to_millimeters (the (femur_position self)) in
      case femur_rotation self of
        None \<Rightarrow> Inl TypeError
      | Some current_rotation \<Rightarrow>
     (case calculate_updated_stylus_position ref_femur_pos_mm ref_rotation
             ref_stylus_pos_mm current_femur_pos_mm current_rotation of
        Inl e \<Rightarrow> Inl e
      | Inr calculated_position_mm \<Rightarrow>
     (case quaternion_to_rotation_matrix current_rotation of
        Inl e \<Rightarrow> Inl e
      | Inr current_rotation_matrix \<Rightarrow>
     (let transformation_matrix =
            map2 (\<lambda>r t. r @ [t]) current_rotation_matrix calculated_position_mm
              @ [[0, 0, 0, 1]] in
      if length current_femur_pos_mm < 3 then Inl IndexError
      else
        Inr (Some \<lparr> map_point_label = point_label,
                    map_calculated_position_mm = calculated_position_mm,
                    map_transformation_matrix = transformation_matrix,
                    map_current_femur_pos_mm = current_femur_pos_mm,
                    map_reference_femur_pos_mm = ref_femur_pos_mm,
                    map_reference_stylus_pos_mm = ref_stylus_pos_mm,
                    map_reference_femur_rotation = ref_rotation \<rparr>))))))))))"

subsection \<open>Notions used to state the properties\<close>





section \<open>Facts about the arithmetic\<close>

lemma fneg_fneg [simp]: "fneg (fneg a) = a"
  by (cases a) simp_all

lemma fneg_inf [simp]: "fneg (inf_of_sign b) = inf_of_sign (\<not> b)"
  by (simp add: inf_of_sign_def)

lemma strip_zero [simp]: "strip 0 e = (0, 0)"
  by (simp add: strip.simps)

lemma mk_zero [simp]: "mk neg 0 e = Finite 0 0"
  by (simp add: mk_def)

lemma fneg_mk [simp]: "fneg (mk neg a e) = mk (\<not> neg) a e"
  by (simp add: mk_def split: prod.splits)

lemma fneg_round_mag: "0 < a \<Longrightarrow> fneg (round_mag neg a e) = round_mag (\<not> neg) a e"
  unfolding round_mag_def Let_def
  apply (simp only: if_distrib [of fneg] fneg_inf fneg_mk)
  apply simp
  done

lemma round_mag_zero [simp]: "round_mag neg 0 e = Finite 0 0"
  by (simp add: round_mag_def)

lemma fneg_round_dyadic: "fneg (round_dyadic m e) = round_dyadic (- m) e"
proof (cases "m = 0")
  case True
  then show ?thesis by (simp add: round_dyadic_def)
next
  case False
  then have "0 < \<bar>m\<bar>" by simp
  moreover have "(- m < 0) = (\<not> m < 0)" using False by auto
  ultimately show ?thesis
    by (simp add: round_dyadic_def fneg_round_mag)
qed

lemma fmul_fneg_fneg [simp]: "fmul (fneg a) (fneg b) = fmul a b"
  by (cases a; cases b) (auto simp add: inf_of_sign_def)

lemma fmul_fneg_left: "fmul (fneg a) b = fneg (fmul a b)"
  by (cases a; cases b) (auto simp add: fneg_round_dyadic inf_of_sign_def)
















lemma bitlen_125: "bitlen 125 = 7"
  by code_simp

lemmas thousand = thousand_def













section \<open>Facts about the catalog functions\<close>

lemmas catalog_defs =
  calculate_point_position_def calculate_mapped_point_def load_csv_data_def
  load_reference_data_def open_csv_def read_float_def femur_pos_columns_def
  femur_rot_columns_def stylus_pos_columns_def available_points_def

lemma load_reference_data_fail_soft:
  shows "\<exists>m. load_reference_data pf file = Inr m"
    and "load_reference_data pf Missing = Inr Map.empty"
    and "load_reference_data pf Unreadable = Inr Map.empty"
    and "load_reference_rows pf rows Map.empty = Inl e \<Longrightarrow>
           load_reference_data pf (Rows rows) = Inr Map.empty"
  by (auto simp add: load_reference_data_def open_csv_def split: sum.splits py_error.splits csv_file.splits)

lemma point_position_miss:
  assumes "load_csv_data pf file = Inr points" and "points (Some l) = None" and "points None = None"
  shows "calculate_point_position pf l pos rot file = Inr None"
  using assms by (simp add: calculate_point_position_def available_points_def)

lemma mapped_point_miss:
  assumes "load_csv_data pf file = Inr points" and "points (Some l) = None" and "points None = None"
  shows "calculate_mapped_point pf self l file = Inr None"
  using assms
  by (cases "file") (simp_all add: calculate_mapped_point_def load_csv_data_def open_csv_def
        available_points_def)

section \<open>Orientation: \<open>quaternion_to_rotation_matrix\<close>\<close>

text \<open>
  C4 (zero-quaternion fallback).  On the input \<open>[0, 0, 0, 0]\<close> the norm is exactly zero
  and \<open>quaternion_to_rotation_matrix\<close> returns the 3x3 identity matrix itself, as a
  normal return value: no exception is raised.
\<close>

theorem zero_quaternion_identity:
  "quaternion_to_rotation_matrix [0, 0, 0, 0] = Inr [[1, 0, 0], [0, 1, 0], [0, 0, 1]]"
  by code_simp

text \<open>
  C3 (rotation orthonormality), at quaternions of tiny nonzero magnitude.  For
  \<open>[2\<^sup>-\<^sup>6\<^sup>0\<^sup>0, 0, 0, 0]\<close> the computed norm is zero and the conversion returns the identity,
  where the quaternion scaled to norm one, \<open>[1, 0, 0, 0]\<close>, gives the half turn about X.
  For \<open>[3 * 2\<^sup>-\<^sup>5\<^sup>3\<^sup>8, 2\<^sup>-\<^sup>5\<^sup>3\<^sup>6, 0, 0]\<close> the squares are subnormal, the computed norm is
  \<open>sqrt 6 * 2\<^sup>-\<^sup>5\<^sup>3\<^sup>7\<close> instead of \<open>2.5 * 2\<^sup>-\<^sup>5\<^sup>3\<^sup>7\<close>, and the matrix returned has the entry
  \<open>-1.0833...\<close> alone in its last row and column: it is not orthonormal.
\<close>

theorem rotation_matrix_tiny_quaternion:
  "quaternion_to_rotation_matrix [Finite 1 (- 600), 0, 0, 0] = Inr [[1, 0, 0], [0, 1, 0], [0, 0, 1]]
   \<and> quaternion_to_rotation_matrix [1, 0, 0, 0] = Inr [[1, 0, 0], [0, - 1, 0], [0, 0, - 1]]
   \<and> quaternion_to_rotation_matrix [Finite 3 (- 538), Finite 1 (- 536), 0, 0]
       = Inr [[Finite (- 1501199875790167) (- 52), Finite 4503599627370497 (- 52), 0],
              [Finite 4503599627370497 (- 52), Finite 2251799813685247 (- 53), 0],
              [0, 0, Finite (- 609862449539755) (- 49)]]"
  by code_simp



section \<open>Reprojection: \<open>calculate_updated_stylus_position\<close>\<close>

text \<open>
  C1 (identity reprojection), at a reference quaternion of tiny magnitude.  The current
  orientation is the reference \<open>[1, 0, 0, 0]\<close> scaled by \<open>2\<^sup>-\<^sup>6\<^sup>0\<^sup>0\<close>, the same orientation
  up to normalisation; position and target are \<open>[0, 0, 0]\<close> and \<open>[0, 0, 10]\<close>.  The squares
  of the scaled components underflow to zero, the norm is zero, the fallback returns the
  identity for the current orientation, and the result is \<open>[0, 0, -10]\<close>, not the target.
  With reference and current quaternion both \<open>[3 * 2\<^sup>-\<^sup>5\<^sup>3\<^sup>8, 2\<^sup>-\<^sup>5\<^sup>3\<^sup>6, 0, 0]\<close> and target
  \<open>[0, 0, 100]\<close> the result is \<open>[0, 0, 117.36...]\<close>.
\<close>

theorem identity_reprojection_tiny_quaternion:
  "map (\<lambda>v. Finite 1 (- 600) * v) [1, 0, 0, 0] = [Finite 1 (- 600), 0, 0, 0]
   \<and> calculate_updated_stylus_position [0, 0, 0] [1, 0, 0, 0] [0, 0, Finite 5 1]
         [0, 0, 0] [Finite 1 (- 600), 0, 0, 0]
       = Inr [0, 0, - Finite 5 1]
   \<and> calculate_updated_stylus_position [0, 0, 0] [Finite 3 (- 538), Finite 1 (- 536), 0, 0]
         [0, 0, Finite 25 2] [0, 0, 0] [Finite 3 (- 538), Finite 1 (- 536), 0, 0]
       = Inr [0, 0, Finite 8258554004184187 (- 46)]"
  by code_simp

text \<open>
  C5 (translation-only invariance), at a quaternion of tiny magnitude.  Reference and
  current quaternion are both \<open>[3 * 2\<^sup>-\<^sup>5\<^sup>3\<^sup>8, 2\<^sup>-\<^sup>5\<^sup>3\<^sup>6, 0, 0]\<close>, the reference position is
  the origin, the target \<open>[0, 0, 100]\<close> and the displacement \<open>[1, 1, 1]\<close>.  The reprojection
  returns \<open>[1, 1, 118.36...]\<close>, where target plus displacement is \<open>[1, 1, 101]\<close>.
\<close>

theorem translation_only_tiny_quaternion:
  "np_add [0, 0, 0] [1, 1, 1] = Inr [1, 1, 1]
   \<and> np_add [0, 0, Finite 25 2] [1, 1, 1] = Inr [1, 1, Finite 101 0]
   \<and> calculate_updated_stylus_position [0, 0, 0] [Finite 3 (- 538), Finite 1 (- 536), 0, 0]
         [0, 0, Finite 25 2] [1, 1, 1] [Finite 3 (- 538), Finite 1 (- 536), 0, 0]
       = Inr [1, 1, Finite 8328922748361851 (- 46)]"
  by code_simp

section \<open>Unit conversion and deviation\<close>







section \<open>The catalog functions\<close>

text \<open>
  C2 (quaternion order at the loading boundary).  The catalog stores the reference
  quaternion W-first, and the docstrings of \<open>PositionCalculator\<close> take \<open>[x, y, z, w]\<close>.
  Evaluated on a catalog whose only row \<open>L1\<close> has the identity orientation
  \<open>W = 1, X = Y = Z = 0\<close>, tracker at the origin and target at \<open>[0, 0, 10]\<close>, with the current
  pose at the origin and current quaternion \<open>[0, 0, 0, 1]\<close>: both lookup functions hand the
  list \<open>[1, 0, 0, 0]\<close> to the reprojection in file order, \<open>load_reference_data\<close> stores it in
  file order, the conversion reads it as \<open>x = 1\<close> (a half turn about X), and the computed
  target is \<open>[0, 0, -10]\<close>.  With the reference reordered to \<open>[0, 0, 0, 1]\<close> the target is
  \<open>[0, 0, 10]\<close>, whether the current quaternion is taken as given or reordered as well.
\<close>

theorem catalog_quaternion_passed_w_first:
  "let pf = [''0'' \<mapsto> 0, ''1'' \<mapsto> 1, ''10'' \<mapsto> Finite 5 1];
       file = Rows [[''Point_Number'' \<mapsto> Some ''L1'',
                ''Femur_Pos_X_mm'' \<mapsto> Some ''0'', ''Femur_Pos_Y_mm'' \<mapsto> Some ''0'',
                ''Femur_Pos_Z_mm'' \<mapsto> Some ''0'',
                ''Femur_Rot_W'' \<mapsto> Some ''1'', ''Femur_Rot_X'' \<mapsto> Some ''0'',
                ''Femur_Rot_Y'' \<mapsto> Some ''0'', ''Femur_Rot_Z'' \<mapsto> Some ''0'',
                ''Stylus_Pos_X_mm'' \<mapsto> Some ''0'', ''Stylus_Pos_Y_mm'' \<mapsto> Some ''0'',
                ''Stylus_Pos_Z_mm'' \<mapsto> Some ''10'']]
   in calculate_point_position pf ''L1'' [0, 0, 0] [0, 0, 0, 1] file =
        Inr (Some \<lparr> res_point_label = ''L1'',
                    res_calculated_position_mm = [0, 0, - Finite 5 1],
                    res_current_femur_pos_mm = [0, 0, 0],
                    res_reference_femur_pos_mm = [0, 0, 0],
                    res_reference_stylus_pos_mm = [0, 0, Finite 5 1],
                    res_reference_femur_rotation = [1, 0, 0, 0] \<rparr>)
      \<and> calculate_mapped_point pf
           \<lparr> femur_data_received = True, femur_position = Some [0, 0, 0],
             femur_rotation = Some [0, 0, 0, 1] \<rparr> ''L1'' file =
        Inr (Some \<lparr> map_point_label = ''L1'',
                    map_calculated_position_mm = [0, 0, - Finite 5 1],
                    map_transformation_matrix =
                      [[1, 0, 0, 0], [0, 1, 0, 0], [0, 0, 1, - Finite 5 1], [0, 0, 0, 1]],
                    map_current_femur_pos_mm = [0, 0, 0],
                    map_reference_femur_pos_mm = [0, 0, 0],
                    map_reference_stylus_pos_mm = [0, 0, Finite 5 1],
                    map_reference_femur_rotation = [1, 0, 0, 0] \<rparr>)
      \<and> load_reference_data pf file =
           Inr [Some ''L1'' \<mapsto> \<lparr> femur_pos = [0, 0, 0], femur_rot = [1, 0, 0, 0],
                             stylus_pos = [0, 0, Finite 5 1] \<rparr>]
      \<and> quaternion_to_rotation_matrix [1, 0, 0, 0] = Inr [[1, 0, 0], [0, - 1, 0], [0, 0, - 1]]
      \<and> calculate_updated_stylus_position [0, 0, 0] [0, 0, 0, 1] [0, 0, Finite 5 1]
           [0, 0, 0] [0, 0, 0, 1] = Inr [0, 0, Finite 5 1]
      \<and> calculate_updated_stylus_position [0, 0, 0] [0, 0, 0, 1] [0, 0, Finite 5 1]
           [0, 0, 0] [0, 0, 1, 0] = Inr [0, 0, Finite 5 1]"
proof -
  have mm: "convert_to_millimeters [0, 0, 0] = [0, 0, 0]"
    by code_simp
  have cu: "calculate_updated_stylus_position [0, 0, 0] [1, 0, 0, 0] [0, 0, Finite 5 1]
              [0, 0, 0] [0, 0, 0, 1] = Inr [0, 0, - Finite 5 1]"
    by code_simp
  have q1: "quaternion_to_rotation_matrix [0, 0, 0, 1] = Inr [[1, 0, 0], [0, 1, 0], [0, 0, 1]]"
    by code_simp
  have q2: "quaternion_to_rotation_matrix [1, 0, 0, 0] = Inr [[1, 0, 0], [0, - 1, 0], [0, 0, - 1]]"
    by code_simp
  have r1: "calculate_updated_stylus_position [0, 0, 0] [0, 0, 0, 1] [0, 0, Finite 5 1]
           [0, 0, 0] [0, 0, 0, 1] = Inr [0, 0, Finite 5 1]"
    by code_simp
  have r2: "calculate_updated_stylus_position [0, 0, 0] [0, 0, 0, 1] [0, 0, Finite 5 1]
           [0, 0, 0] [0, 0, 1, 0] = Inr [0, 0, Finite 5 1]"
    by code_simp
  show ?thesis
    by (simp add: Let_def catalog_defs mm cu q1 q2 r1 r2 eye3_def
          del: quaternion_to_rotation_matrix.simps)
qed

theorem catalog_quaternion_passed_w_first_witness:
  "let pf = [''0'' \<mapsto> 0, ''1'' \<mapsto> 1, ''10'' \<mapsto> Finite 5 1];
       file = Rows [[''Point_Number'' \<mapsto> Some ''L1'',
                ''Femur_Pos_X_mm'' \<mapsto> Some ''0'', ''Femur_Pos_Y_mm'' \<mapsto> Some ''0'',
                ''Femur_Pos_Z_mm'' \<mapsto> Some ''0'',
                ''Femur_Rot_W'' \<mapsto> Some ''1'', ''Femur_Rot_X'' \<mapsto> Some ''0'',
                ''Femur_Rot_Y'' \<mapsto> Some ''0'', ''Femur_Rot_Z'' \<mapsto> Some ''0'',
                ''Stylus_Pos_X_mm'' \<mapsto> Some ''0'', ''Stylus_Pos_Y_mm'' \<mapsto> Some ''0'',
                ''Stylus_Pos_Z_mm'' \<mapsto> Some ''10'']];
       self = \<lparr> femur_data_received = True, femur_position = Some [0, 0, 0],
                 femur_rotation = Some [0, 0, 0, 1] \<rparr>
   in femur_data_received self \<and> femur_position self \<noteq> None
      \<and> (\<exists>r. calculate_mapped_point pf self ''L1'' file = Inr (Some r)
             \<and> map_reference_femur_rotation r = [1, 0, 0, 0]
             \<and> map_calculated_position_mm r = [0, 0, - Finite 5 1]
             \<and> Inr (map_calculated_position_mm r)
                 \<noteq> calculate_updated_stylus_position [0, 0, 0] [0, 0, 0, 1]
                     [0, 0, Finite 5 1] [0, 0, 0] [0, 0, 0, 1])"
proof -
  have ne: "- Finite 5 1 \<noteq> Finite 5 1"
    by code_simp
  show ?thesis
    using catalog_quaternion_passed_w_first ne by (simp add: Let_def)
qed

text \<open>
  C8 (catalog loading on a bad source).  \<open>load_csv_data\<close> of \<open>visualize_points.py\<close> has no
  handler: a missing file leaves it as \<open>FileNotFoundError\<close>, an unreadable one as
  \<open>OSError\<close>, a cell that is not a number as \<open>ValueError\<close>, and \<open>calculate_point_position\<close>
  passes the exception on to its caller.  \<open>load_reference_data\<close> on the same missing file
  returns the empty dictionary.
\<close>

theorem load_csv_data_propagates:
  "load_csv_data pf Missing = Inl FileNotFoundError
   \<and> load_csv_data pf Unreadable = Inl OSError
   \<and> load_csv_data [''0'' \<mapsto> 0]
        (Rows [[''Point_Number'' \<mapsto> Some ''L1'', ''Femur_Pos_X_mm'' \<mapsto> Some ''abc'']])
       = Inl ValueError
   \<and> calculate_point_position pf l pos rot Missing = Inl FileNotFoundError
   \<and> load_reference_data pf Missing = Inr Map.empty"
  by (simp add: load_csv_data_def open_csv_def calculate_point_position_def
        load_reference_data_def read_float_def femur_pos_columns_def)

text \<open>
  C9 (catalog miss).  A catalog whose header ends in \<open>Point_Number\<close> and whose only row is
  one field short loads, with the key \<open>None\<close>.  Looking up the absent label \<open>L1\<close> then
  raises \<open>TypeError\<close> from both lookup functions, while the message of the miss branch is
  built, where the docstrings promise \<open>None\<close>.  A catalog without rotation columns loads
  too; an absent label returns \<open>None\<close>, and the present label \<open>L1\<close> raises \<open>KeyError\<close> from
  the second pass over the file instead of returning its entry.
\<close>

theorem catalog_lookup_miss_raises:
  "let pf = [''0'' \<mapsto> 0, ''1'' \<mapsto> 1, ''10'' \<mapsto> Finite 5 1];
       short_row = [''Femur_Pos_X_mm'' \<mapsto> Some ''0'', ''Femur_Pos_Y_mm'' \<mapsto> Some ''0'',
                ''Femur_Pos_Z_mm'' \<mapsto> Some ''0'',
                ''Femur_Rot_W'' \<mapsto> Some ''0'', ''Femur_Rot_X'' \<mapsto> Some ''0'',
                ''Femur_Rot_Y'' \<mapsto> Some ''0'', ''Femur_Rot_Z'' \<mapsto> Some ''1'',
                ''Stylus_Pos_X_mm'' \<mapsto> Some ''0'', ''Stylus_Pos_Y_mm'' \<mapsto> Some ''0'',
                ''Stylus_Pos_Z_mm'' \<mapsto> Some ''10'', ''Point_Number'' \<mapsto> None];
       no_rotation_row = [''Point_Number'' \<mapsto> Some ''L1'',
                ''Femur_Pos_X_mm'' \<mapsto> Some ''0'', ''Femur_Pos_Y_mm'' \<mapsto> Some ''0'',
                ''Femur_Pos_Z_mm'' \<mapsto> Some ''0'',
                ''Stylus_Pos_X_mm'' \<mapsto> Some ''0'', ''Stylus_Pos_Y_mm'' \<mapsto> Some ''0'',
                ''Stylus_Pos_Z_mm'' \<mapsto> Some ''10''];
       self = \<lparr> femur_data_received = True, femur_position = Some [0, 0, 0],
                 femur_rotation = Some [0, 0, 0, 1] \<rparr>
   in load_csv_data pf (Rows [short_row])
        = Inr [None \<mapsto> \<lparr> femur = [0, 0, 0], stylus = [0, 0, Finite 5 1] \<rparr>]
      \<and> calculate_point_position pf ''L1'' [0, 0, 0] [0, 0, 0, 1] (Rows [short_row])
          = Inl TypeError
      \<and> calculate_mapped_point pf self ''L1'' (Rows [short_row]) = Inl TypeError
      \<and> load_csv_data pf (Rows [no_rotation_row])
        = Inr [Some ''L1'' \<mapsto> \<lparr> femur = [0, 0, 0], stylus = [0, 0, Finite 5 1] \<rparr>]
      \<and> calculate_point_position pf ''M7'' [0, 0, 0] [0, 0, 0, 1] (Rows [no_rotation_row])
          = Inr None
      \<and> calculate_point_position pf ''L1'' [0, 0, 0] [0, 0, 0, 1] (Rows [no_rotation_row])
          = Inl KeyError
      \<and> calculate_mapped_point pf self ''L1'' (Rows [no_rotation_row]) = Inl KeyError"
  by (simp add: Let_def catalog_defs)

theorem catalog_lookup_miss_raises_witness:
  "let pf = [''0'' \<mapsto> 0, ''1'' \<mapsto> 1, ''10'' \<mapsto> Finite 5 1];
       short_row = [''Femur_Pos_X_mm'' \<mapsto> Some ''0'', ''Femur_Pos_Y_mm'' \<mapsto> Some ''0'',
                ''Femur_Pos_Z_mm'' \<mapsto> Some ''0'',
                ''Femur_Rot_W'' \<mapsto> Some ''0'', ''Femur_Rot_X'' \<mapsto> Some ''0'',
                ''Femur_Rot_Y'' \<mapsto> Some ''0'', ''Femur_Rot_Z'' \<mapsto> Some ''1'',
                ''Stylus_Pos_X_mm'' \<mapsto> Some ''0'', ''Stylus_Pos_Y_mm'' \<mapsto> Some ''0'',
                ''Stylus_Pos_Z_mm'' \<mapsto> Some ''10'', ''Point_Number'' \<mapsto> None];
       self = \<lparr> femur_data_received = True, femur_position = Some [0, 0, 0],
                 femur_rotation = Some [0, 0, 0, 1] \<rparr>
   in femur_data_received self \<and> femur_position self \<noteq> None
      \<and> (\<exists>points. load_csv_data pf (Rows [short_row]) = Inr points
             \<and> points (Some ''L1'') = None)
      \<and> calculate_mapped_point pf self ''L1'' (Rows [short_row]) \<noteq> Inr None
      \<and> calculate_point_position pf ''L1'' [0, 0, 0] [0, 0, 0, 1] (Rows [short_row])
          \<noteq> Inr None"
  using catalog_lookup_miss_raises by (simp add: Let_def)

end
